theory Spec2Isabelle
  imports Main "HOL-Library.AList"
begin

section \<open>JavaScript values\<close>

text \<open>
  The client of \<^verbatim>\<open>src/index.js\<close> handles decoded JSON and plain option objects.
  A value is one of JavaScript's primitives, an array or an object. Numbers are
  restricted to integers (the status codes, limits and sizes the client reads). An object
  is its list of own properties in insertion order; the objects built here and the ones a
  JSON decoder returns have pairwise distinct keys, and a lookup takes the first entry.
\<close>

datatype json =
    JUndefined
  | JNull
  | JBool bool
  | JNum int
  | JStr string
  | JArr "json list"
  | JObj "(string \<times> json) list"

text \<open>
  What the client throws, or what a promise of it rejects with: \<^verbatim>\<open>Error(message)\<close>, the
  engine's \<^verbatim>\<open>TypeError\<close> (a property read on \<^verbatim>\<open>null\<close> or \<^verbatim>\<open>undefined\<close>, a call of
  something that is no function), and a rejection that comes from the transport
  (network failure, a body that is no JSON).
\<close>

datatype js_error =
    Error string
  | TypeError
  | FetchError string

subsection \<open>Conversion to string\<close>

function dec_digits :: "nat \<Rightarrow> string" where
  "dec_digits n =
     (if n < 10 then [''0123456789'' ! n]
      else dec_digits (n div 10) @ [''0123456789'' ! (n mod 10)])"
  by pat_completeness auto
termination
  by (relation "measure (\<lambda>n. n)") auto

declare dec_digits.simps [simp del]

definition int_to_string :: "int \<Rightarrow> string" where
  "int_to_string i = (if i < 0 then CHR ''-'' # dec_digits (nat (- i)) else dec_digits (nat i))"

fun join :: "string \<Rightarrow> string list \<Rightarrow> string" where
  "join sep [] = []"
| "join sep [s] = s"
| "join sep (s # t # ts) = s @ sep @ join sep (t # ts)"

text \<open>
  \<^verbatim>\<open>ToString\<close>, as a template literal \<^verbatim>\<open>`${v}`\<close>, a property key and the \<^verbatim>\<open>Error\<close>
  constructor apply it. An array joins its elements with a comma, \<^verbatim>\<open>null\<close> and
  \<^verbatim>\<open>undefined\<close> elements giving the empty string.
\<close>

fun js_to_string :: "json \<Rightarrow> string" where
  "js_to_string JUndefined = ''undefined''"
| "js_to_string JNull = ''null''"
| "js_to_string (JBool b) = (if b then ''true'' else ''false'')"
| "js_to_string (JNum i) = int_to_string i"
| "js_to_string (JStr s) = s"
| "js_to_string (JArr xs) =
     join '','' (map (\<lambda>x. if x = JNull \<or> x = JUndefined then [] else js_to_string x) xs)"
| "js_to_string (JObj kvs) = ''[object Object]''"

text \<open>
  \<^verbatim>\<open>Error(message)\<close>: the message is \<^verbatim>\<open>ToString(message)\<close>, and the empty string of
  \<^verbatim>\<open>Error.prototype\<close> when \<^verbatim>\<open>message\<close> is \<^verbatim>\<open>undefined\<close>.
\<close>

definition new_Error :: "json \<Rightarrow> js_error" where
  "new_Error message = Error (if message = JUndefined then [] else js_to_string message)"

subsection \<open>Property reads, truthiness\<close>

definition isNil :: "json \<Rightarrow> bool" where
  "isNil v = (v = JNull \<or> v = JUndefined)"

text \<open>
  \<^verbatim>\<open>v.key\<close>, for the keys the client reads (\<^verbatim>\<open>status\<close>, \<^verbatim>\<open>message\<close>, \<^verbatim>\<open>data\<close>,
  \<^verbatim>\<open>id\<close>, \<^verbatim>\<open>value\<close>, \<^verbatim>\<open>name\<close>, ...), none of which a prototype provides: an object
  gives its property or \<^verbatim>\<open>undefined\<close>, every other value that can be read gives
  \<^verbatim>\<open>undefined\<close>. A read on \<^verbatim>\<open>null\<close> or \<^verbatim>\<open>undefined\<close> throws; so does destructuring
  one of them.
\<close>

fun js_prop :: "json \<Rightarrow> string \<Rightarrow> json" where
  "js_prop (JObj kvs) k = (case map_of kvs k of None \<Rightarrow> JUndefined | Some v \<Rightarrow> v)"
| "js_prop v k = JUndefined"

definition get_prop :: "json \<Rightarrow> string \<Rightarrow> js_error + json" where
  "get_prop v k = (if isNil v then Inl TypeError else Inr (js_prop v k))"

fun truthy :: "json \<Rightarrow> bool" where
  "truthy JUndefined = False"
| "truthy JNull = False"
| "truthy (JBool b) = b"
| "truthy (JNum i) = (i \<noteq> 0)"
| "truthy (JStr s) = (s \<noteq> [])"
| "truthy v = True"

fun isArray :: "json \<Rightarrow> bool" where
  "isArray (JArr xs) = True"
| "isArray v = False"

fun isObject :: "json \<Rightarrow> bool" where
  "isObject (JObj kvs) = True"
| "isObject v = False"

text \<open>Whether an object has an own property of that name.\<close>

fun has_key :: "json \<Rightarrow> string \<Rightarrow> bool" where
  "has_key (JObj kvs) k = (k \<in> set (map fst kvs))"
| "has_key v k = False"

text \<open>A parameter default \<^verbatim>\<open>{key = d}\<close> applies when the property is \<^verbatim>\<open>undefined\<close>.\<close>

definition or_default :: "json \<Rightarrow> json \<Rightarrow> json" where
  "or_default v d = (if v = JUndefined then d else v)"

text \<open>\<^verbatim>\<open>Array.prototype.map\<close> with a callback that may throw: the first throw ends it.\<close>

fun map_result :: "('a \<Rightarrow> js_error + 'b) \<Rightarrow> 'a list \<Rightarrow> js_error + 'b list" where
  "map_result f [] = Inr []"
| "map_result f (x # xs) =
     (case f x of
        Inl e \<Rightarrow> Inl e
      | Inr y \<Rightarrow> (case map_result f xs of Inl e \<Rightarrow> Inl e | Inr ys \<Rightarrow> Inr (y # ys)))"

subsection \<open>The lodash helpers the client imports\<close>

text \<open>\<^verbatim>\<open>isNil\<close> is defined above; \<^verbatim>\<open>omitBy\<close> and \<^verbatim>\<open>omit\<close> keep the order of the rest.\<close>

definition omitBy :: "(string \<times> json) list \<Rightarrow> (json \<Rightarrow> bool) \<Rightarrow> (string \<times> json) list" where
  "omitBy obj p = filter (\<lambda>kv. \<not> p (snd kv)) obj"

definition omit :: "(string \<times> json) list \<Rightarrow> string list \<Rightarrow> (string \<times> json) list" where
  "omit obj ks = filter (\<lambda>kv. fst kv \<notin> set ks) obj"

text \<open>
  \<^verbatim>\<open>fromPairs\<close> assigns \<^verbatim>\<open>result[pair[0]] = pair[1]\<close> from left to right: a later pair
  with the same key replaces the value and keeps the key's place.
\<close>

definition fromPairs :: "(json \<times> json) list \<Rightarrow> (string \<times> json) list" where
  "fromPairs pairs = foldl (\<lambda>obj kv. AList.update (js_to_string (fst kv)) (snd kv) obj) [] pairs"

section \<open>The success check\<close>

text \<open>
  \<^verbatim>\<open>
  const checkSuccess = (res) => {
      if (res.status !== 0) { throw Error(res.message); }
      return res;
  };
  \<close>
\<close>

definition checkSuccess :: "json \<Rightarrow> js_error + json" where
  "checkSuccess res =
     (case get_prop res ''status'' of
        Inl e \<Rightarrow> Inl e
      | Inr status \<Rightarrow>
          if status \<noteq> JNum 0 then
            (case get_prop res ''message'' of
               Inl e \<Rightarrow> Inl e
             | Inr message \<Rightarrow> Inl (new_Error message))
          else Inr res)"

section \<open>Collaborators, session and promises\<close>

text \<open>
  A call of \<^verbatim>\<open>fetch(url, options)\<close>: node-fetch sends a \<^verbatim>\<open>GET\<close> that follows redirects
  when no options are given.
\<close>

record request =
  req_url :: string
  req_method :: string
  req_headers :: "(string \<times> string) list"
  req_body :: "string option"
  req_redirect :: string

definition GET :: "string \<Rightarrow> request" where
  "GET u = \<lparr>req_url = u, req_method = ''GET'', req_headers = [], req_body = None,
     req_redirect = ''follow''\<rparr>"

definition POST :: "string \<Rightarrow> string \<Rightarrow> string option \<Rightarrow> request" where
  "POST u content_type b = \<lparr>req_url = u, req_method = ''POST'',
     req_headers = [(''Content-Type'', content_type)], req_body = b, req_redirect = ''follow''\<rparr>"

text \<open>
  What the client reads of a response: \<^verbatim>\<open>res.headers.get('set-cookie')\<close> (absent is
  \<^verbatim>\<open>null\<close>) and the outcome of \<^verbatim>\<open>res.json()\<close>.
\<close>

record response =
  set_cookie :: "string option"
  json_body :: "js_error + json"

text \<open>
  The module \<^verbatim>\<open>./constants\<close> is not among the sources: the values the client takes from it
  are parameters.
\<close>

record constants =
  Actions_buy :: json
  Actions_sell :: json
  ProductTypes_all :: json
  ProductTypes_shares :: json
  TimeTypes_day :: json

text \<open>
  The libraries the client calls into, over a remote side of any type \<open>'w\<close>: \<^verbatim>\<open>fetch\<close>
  answers a request (or rejects) and moves the remote side on; \<^verbatim>\<open>cookie.parse\<close> gives the
  cookies of a header by name; \<^verbatim>\<open>querystring.stringify\<close> and \<^verbatim>\<open>JSON.stringify\<close> encode an
  object. With them, what \<^verbatim>\<open>create\<close> closes over: the credentials.
\<close>

record 'w env =
  fetch :: "'w \<Rightarrow> request \<Rightarrow> (js_error + response) \<times> 'w"
  parseCookies :: "string \<Rightarrow> (string \<times> string) list"
  querystring_stringify :: "(string \<times> json) list \<Rightarrow> string"
  JSON_stringify :: "json \<Rightarrow> string"
  constants :: constants
  username :: json
  password :: json

record session =
  session_id :: json
  session_account :: json

text \<open>
  The state a run threads through: the mutable \<^verbatim>\<open>session\<close> object, the remote side, and
  the requests issued so far, oldest first.
\<close>

record 'w state =
  session :: session
  world :: 'w
  calls :: "request list"

text \<open>
  \<^verbatim>\<open>
  const create = ({username = process.env.DEGIRO_USER, password = process.env.DEGIRO_PASS,
      sessionId = process.env.DEGIRO_SID, account = process.env.DEGIRO_ACCOUNT,
      debug = false} = {}) => {
      const session = {id: sessionId, account};
  \<close>
  The session a new client starts with (\<^verbatim>\<open>debug\<close> only switches console output on, which
  is not modelled).
\<close>

definition create_session :: "(string \<Rightarrow> json) \<Rightarrow> json \<Rightarrow> js_error + session" where
  "create_session process_env arg =
     (let a = or_default arg (JObj []) in
      if isNil a then Inl TypeError
      else Inr \<lparr>session_id = or_default (js_prop a ''sessionId'') (process_env ''DEGIRO_SID''),
                session_account = or_default (js_prop a ''account'') (process_env ''DEGIRO_ACCOUNT'')\<rparr>)"

type_synonym ('w, 'a) promise = "'w state \<Rightarrow> (js_error + 'a) \<times> 'w state"

definition settle :: "js_error + 'a \<Rightarrow> ('w, 'a) promise" where
  "settle r st = (r, st)"

text \<open>\<^verbatim>\<open>p.then(f)\<close>: a rejection of \<^verbatim>\<open>p\<close> skips \<^verbatim>\<open>f\<close>.\<close>

definition pthen :: "('w, 'a) promise \<Rightarrow> ('a \<Rightarrow> ('w, 'b) promise) \<Rightarrow> ('w, 'b) promise" where
  "pthen p f st =
     (case p st of
        (Inl e, st') \<Rightarrow> (Inl e, st')
      | (Inr a, st') \<Rightarrow> f a st')"

definition do_fetch :: "'w env \<Rightarrow> request \<Rightarrow> ('w, response) promise" where
  "do_fetch env req st =
     (case fetch env (world st) req of
        (r, w') \<Rightarrow> (r, st\<lparr>world := w', calls := calls st @ [req]\<rparr>))"

text \<open>\<^verbatim>\<open>fetch(...).then(res => res.json())\<close>\<close>

definition fetch_json :: "'w env \<Rightarrow> request \<Rightarrow> ('w, json) promise" where
  "fetch_json env req = pthen (do_fetch env req) (\<lambda>res. settle (json_body res))"

definition BASE_URL :: string where
  "BASE_URL = ''https://trader.degiro.nl''"

section \<open>Reading the account\<close>

text \<open>
  \<^verbatim>\<open>
  const getData = (options = {}) => {
      const params = querystring.stringify(options);
      return fetch(`${BASE_URL}/trading/secure/v5/update/${session.account};jsessionid=${session.id}?${params}`)
      .then(res => res.json());
  };
  \<close>
\<close>

definition getData_request :: "'w env \<Rightarrow> session \<Rightarrow> (string \<times> json) list \<Rightarrow> request" where
  "getData_request env s options =
     (let params = querystring_stringify env options in
      GET (BASE_URL @ ''/trading/secure/v5/update/'' @ js_to_string (session_account s)
           @ '';jsessionid='' @ js_to_string (session_id s) @ ''?'' @ params))"

definition getData :: "'w env \<Rightarrow> (string \<times> json) list \<Rightarrow> ('w, json) promise" where
  "getData env options st = fetch_json env (getData_request env (session st) options) st"

text \<open>
  \<^verbatim>\<open>
  const getCashFunds = () => {
      return getData({cashFunds: 0}).then(data => {
          if (data.cashFunds && Array.isArray(data.cashFunds.value)) {
              return {cashFunds: data.cashFunds.value.map(({value}) =>
                  omit(fromPairs(value.map(({name, value}) => [name, value])), ['handling', 'currencyCode']))
              };
          }
          throw Error('Bad result: ' + JSON.stringify(data));
      });
  };
  \<close>
  The inner callback \<^verbatim>\<open>({name, value}) => [name, value]\<close>:
\<close>

definition name_value_pair :: "json \<Rightarrow> js_error + json \<times> json" where
  "name_value_pair item =
     (if isNil item then Inl TypeError else Inr (js_prop item ''name'', js_prop item ''value''))"

text \<open>The outer callback; \<^verbatim>\<open>value.map\<close> throws unless \<^verbatim>\<open>value\<close> is an array.\<close>

definition cashFunds_entry :: "json \<Rightarrow> js_error + json" where
  "cashFunds_entry entry =
     (if isNil entry then Inl TypeError
      else case js_prop entry ''value'' of
        JArr items \<Rightarrow>
          (case map_result name_value_pair items of
             Inl e \<Rightarrow> Inl e
           | Inr pairs \<Rightarrow> Inr (JObj (omit (fromPairs pairs) [''handling'', ''currencyCode''])))
      | _ \<Rightarrow> Inl TypeError)"

definition bad_result :: "'w env \<Rightarrow> json \<Rightarrow> js_error" where
  "bad_result env data = Error (''Bad result: '' @ JSON_stringify env data)"

definition getCashFunds_then :: "'w env \<Rightarrow> json \<Rightarrow> js_error + json" where
  "getCashFunds_then env data =
     (case get_prop data ''cashFunds'' of
        Inl e \<Rightarrow> Inl e
      | Inr cashFunds \<Rightarrow>
          if truthy cashFunds \<and> isArray (js_prop cashFunds ''value'') then
            (case js_prop cashFunds ''value'' of
               JArr entries \<Rightarrow>
                 (case map_result cashFunds_entry entries of
                    Inl e \<Rightarrow> Inl e
                  | Inr es \<Rightarrow> Inr (JObj [(''cashFunds'', JArr es)]))
             | _ \<Rightarrow> Inl TypeError)
          else Inl (bad_result env data))"

definition getCashFunds :: "'w env \<Rightarrow> ('w, json) promise" where
  "getCashFunds env =
     pthen (getData env [(''cashFunds'', JNum 0)]) (\<lambda>data. settle (getCashFunds_then env data))"

text \<open>
  \<^verbatim>\<open>
  const getPortfolio = () => {
      return getData({portfolio: 0}).then(data => {
          if (data.portfolio && Array.isArray(data.portfolio.value)) {
              return {portfolio: data.portfolio.value};
          }
          throw Error('Bad result: ' + JSON.stringify(data));
      });
  };
  \<close>
\<close>

definition getPortfolio_then :: "'w env \<Rightarrow> json \<Rightarrow> js_error + json" where
  "getPortfolio_then env data =
     (case get_prop data ''portfolio'' of
        Inl e \<Rightarrow> Inl e
      | Inr portfolio \<Rightarrow>
          if truthy portfolio \<and> isArray (js_prop portfolio ''value'') then
            Inr (JObj [(''portfolio'', js_prop portfolio ''value'')])
          else Inl (bad_result env data))"

definition getPortfolio :: "'w env \<Rightarrow> ('w, json) promise" where
  "getPortfolio env =
     pthen (getData env [(''portfolio'', JNum 0)]) (\<lambda>data. settle (getPortfolio_then env data))"

section \<open>Logging in\<close>

text \<open>
  \<^verbatim>\<open>
  const updateClientInfo = () => {
      return fetch(`${BASE_URL}/pa/secure/client?sessionId=${session.id}`)
      .then(res => res.json())
      .then(({intAccount}) => { session.account = intAccount; });
  };
  \<close>
\<close>

definition set_account :: "json \<Rightarrow> ('w, unit) promise" where
  "set_account body st =
     (if isNil body then (Inl TypeError, st)
      else (Inr (), st\<lparr>session := (session st)\<lparr>session_account := js_prop body ''intAccount''\<rparr>\<rparr>))"

definition clientInfo_request :: "json \<Rightarrow> request" where
  "clientInfo_request sid = GET (BASE_URL @ ''/pa/secure/client?sessionId='' @ js_to_string sid)"

definition updateClientInfo :: "'w env \<Rightarrow> ('w, unit) promise" where
  "updateClientInfo env st =
     pthen (fetch_json env (clientInfo_request (session_id (session st)))) set_account st"

text \<open>
  \<^verbatim>\<open>
  const login = () => {
      return fetch(`${BASE_URL}/login/securityCheck`, {
          method: 'POST',
          headers: {'Content-Type': 'application/x-www-form-urlencoded'},
          body: querystring.stringify({j_username: username, j_password: password}),
          redirect: 'manual',
      })
      .then(res => {
          const cookies = parseCookies(res.headers.get('set-cookie') || '');
          session.id = cookies.JSESSIONID;
          if (!session.id) { throw Error('Login error'); }
      })
      .then(updateClientInfo)
      .then(() => session);
  };
  \<close>
\<close>

definition login_request :: "'w env \<Rightarrow> request" where
  "login_request env =
     (POST (BASE_URL @ ''/login/securityCheck'') ''application/x-www-form-urlencoded''
        (Some (querystring_stringify env
           [(''j_username'', username env), (''j_password'', password env)])))
     \<lparr>req_redirect := ''manual''\<rparr>"

definition session_cookie :: "'w env \<Rightarrow> response \<Rightarrow> string option" where
  "session_cookie env res =
     (let cookies = parseCookies env (case set_cookie res of None \<Rightarrow> [] | Some h \<Rightarrow> h) in
      map_of cookies ''JSESSIONID'')"

definition cookie_JSESSIONID :: "'w env \<Rightarrow> response \<Rightarrow> json" where
  "cookie_JSESSIONID env res =
     (case session_cookie env res of None \<Rightarrow> JUndefined | Some v \<Rightarrow> JStr v)"

definition set_id :: "'w env \<Rightarrow> response \<Rightarrow> ('w, unit) promise" where
  "set_id env res st =
     (let st' = st\<lparr>session := (session st)\<lparr>session_id := cookie_JSESSIONID env res\<rparr>\<rparr> in
      if \<not> truthy (session_id (session st')) then (Inl (Error ''Login error''), st')
      else (Inr (), st'))"

definition login :: "'w env \<Rightarrow> ('w, session) promise" where
  "login env =
     pthen
       (pthen
          (pthen (do_fetch env (login_request env)) (set_id env))
          (\<lambda>_. updateClientInfo env))
       (\<lambda>_ st. (Inr (session st), st))"

section \<open>Searching a product\<close>

text \<open>
  \<^verbatim>\<open>
  const searchProduct = ({text: searchText, productType = ProductTypes.all, sortColumn, sortType,
                          limit = 7, offset = 0}) => {
      const options = {searchText, productType, sortColumn, sortType, limit, offset};
      const params = querystring.stringify(omitBy(options, isNil));
      return fetch(`${BASE_URL}/product_search/secure/v4/product/lookup?intAccount=${session.account}&sessionId=${session.id}&${params}`)
      .then(res => res.json());
  };
  \<close>
\<close>

definition searchProduct_options :: "constants \<Rightarrow> json \<Rightarrow> (string \<times> json) list" where
  "searchProduct_options c arg =
     [(''searchText'', js_prop arg ''text''),
      (''productType'', or_default (js_prop arg ''productType'') (ProductTypes_all c)),
      (''sortColumn'', js_prop arg ''sortColumn''),
      (''sortType'', js_prop arg ''sortType''),
      (''limit'', or_default (js_prop arg ''limit'') (JNum 7)),
      (''offset'', or_default (js_prop arg ''offset'') (JNum 0))]"

definition searchProduct_params :: "constants \<Rightarrow> json \<Rightarrow> (string \<times> json) list" where
  "searchProduct_params c arg = omitBy (searchProduct_options c arg) isNil"

definition searchProduct_request :: "'w env \<Rightarrow> session \<Rightarrow> json \<Rightarrow> request" where
  "searchProduct_request env s arg =
     GET (BASE_URL @ ''/product_search/secure/v4/product/lookup?intAccount=''
          @ js_to_string (session_account s) @ ''&sessionId='' @ js_to_string (session_id s)
          @ ''&'' @ querystring_stringify env (searchProduct_params (constants env) arg))"

definition searchProduct :: "'w env \<Rightarrow> json \<Rightarrow> ('w, json) promise" where
  "searchProduct env arg st =
     (if isNil arg then (Inl TypeError, st)
      else fetch_json env (searchProduct_request env (session st) arg) st)"

section \<open>Placing an order\<close>

text \<open>
  \<^verbatim>\<open>
  const checkOrder = (order) => {
      const {buysell, orderType, productId, size, timeType, price, stopPrice} = order;
      return fetch(`${BASE_URL}/trading/secure/v5/checkOrder;jsessionid=${session.id}?intAccount=${session.account}&sessionId=${session.id}`, {
          method: 'POST',
          headers: {'Content-Type': 'application/json;charset=UTF-8'},
          body: JSON.stringify(order),
      })
      .then(res => res.json())
      .then(checkSuccess)
      .then(json => ({order, confirmationId: json.confirmationId}));
  };
  \<close>
  \<^verbatim>\<open>JSON.stringify(undefined)\<close> is \<^verbatim>\<open>undefined\<close>, and the request then has no body.
\<close>

definition json_body_of :: "'w env \<Rightarrow> json \<Rightarrow> string option" where
  "json_body_of env v = (if v = JUndefined then None else Some (JSON_stringify env v))"

definition auth_suffix :: "session \<Rightarrow> string" where
  "auth_suffix s =
     '';jsessionid='' @ js_to_string (session_id s) @ ''?intAccount=''
     @ js_to_string (session_account s) @ ''&sessionId='' @ js_to_string (session_id s)"

definition checkOrder_request :: "'w env \<Rightarrow> session \<Rightarrow> json \<Rightarrow> request" where
  "checkOrder_request env s order =
     POST (BASE_URL @ ''/trading/secure/v5/checkOrder'' @ auth_suffix s)
       ''application/json;charset=UTF-8'' (json_body_of env order)"

definition checkOrder :: "'w env \<Rightarrow> json \<Rightarrow> ('w, json) promise" where
  "checkOrder env order st =
     (if isNil order then (Inl TypeError, st)
      else
        pthen
          (pthen (fetch_json env (checkOrder_request env (session st) order))
             (\<lambda>res. settle (checkSuccess res)))
          (\<lambda>json. settle
             (Inr (JObj [(''order'', order), (''confirmationId'', js_prop json ''confirmationId'')])))
          st)"

text \<open>
  \<^verbatim>\<open>
  const confirmOrder = ({order, confirmationId}) => {
      return fetch(`${BASE_URL}/trading/secure/v5/order/${confirmationId};jsessionid=${session.id}?intAccount=${session.account}&sessionId=${session.id}`, {
          method: 'POST',
          headers: {'Content-Type': 'application/json;charset=UTF-8'},
          body: JSON.stringify(order),
      })
      .then(res => res.json())
      .then(checkSuccess)
      .then(json => ({orderId: json.orderId}));
  };
  \<close>
\<close>

definition confirmOrder_request :: "'w env \<Rightarrow> session \<Rightarrow> json \<Rightarrow> request" where
  "confirmOrder_request env s arg =
     POST (BASE_URL @ ''/trading/secure/v5/order/'' @ js_to_string (js_prop arg ''confirmationId'')
           @ auth_suffix s)
       ''application/json;charset=UTF-8'' (json_body_of env (js_prop arg ''order''))"

definition confirmOrder :: "'w env \<Rightarrow> json \<Rightarrow> ('w, json) promise" where
  "confirmOrder env arg st =
     (if isNil arg then (Inl TypeError, st)
      else
        pthen
          (pthen (fetch_json env (confirmOrder_request env (session st) arg))
             (\<lambda>res. settle (checkSuccess res)))
          (\<lambda>json. settle (Inr (JObj [(''orderId'', js_prop json ''orderId'')])))
          st)"

text \<open>
  \<^verbatim>\<open>
  const returnFirstProductResult = (result) => {
      if (Array.isArray(result.data) && result.data.length) { return result.data[0]; }
      throw new Error('Product not found');
  };
  \<close>
\<close>

definition returnFirstProductResult :: "json \<Rightarrow> js_error + json" where
  "returnFirstProductResult result =
     (case get_prop result ''data'' of
        Inl e \<Rightarrow> Inl e
      | Inr d \<Rightarrow>
          (case d of
             JArr xs \<Rightarrow> if length xs \<noteq> 0 then Inr (xs ! 0) else Inl (Error ''Product not found'')
           | _ \<Rightarrow> Inl (Error ''Product not found'')))"

text \<open>
  \<^verbatim>\<open>
  const buy = ({orderType, productSymbol, productType = ProductTypes.shares, size,
                timeType = TimeTypes.day, price, stopPrice}) => {
      return searchProduct({text: productSymbol, productType, limit: 1})
      .then(returnFirstProductResult)
      .then(({id}) => checkOrder({buysell: Actions.buy, orderType, productId: id, size, timeType, price, stopPrice}))
      .then(confirmOrder);
  };
  \<close>
  \<^verbatim>\<open>sell\<close> is the same text with \<^verbatim>\<open>Actions.sell\<close>. The two object literals first: the
  argument of \<^verbatim>\<open>searchProduct\<close>, and the order that \<^verbatim>\<open>buy\<close> and \<^verbatim>\<open>sell\<close> each build from
  the product found.
\<close>

definition search_arg :: "constants \<Rightarrow> json \<Rightarrow> json" where
  "search_arg c arg =
     JObj [(''text'', js_prop arg ''productSymbol''),
           (''productType'', or_default (js_prop arg ''productType'') (ProductTypes_shares c)),
           (''limit'', JNum 1)]"

definition buy_order :: "constants \<Rightarrow> json \<Rightarrow> json \<Rightarrow> json" where
  "buy_order c arg product =
     JObj [(''buysell'', Actions_buy c),
           (''orderType'', js_prop arg ''orderType''),
           (''productId'', js_prop product ''id''),
           (''size'', js_prop arg ''size''),
           (''timeType'', or_default (js_prop arg ''timeType'') (TimeTypes_day c)),
           (''price'', js_prop arg ''price''),
           (''stopPrice'', js_prop arg ''stopPrice'')]"

definition sell_order :: "constants \<Rightarrow> json \<Rightarrow> json \<Rightarrow> json" where
  "sell_order c arg product =
     JObj [(''buysell'', Actions_sell c),
           (''orderType'', js_prop arg ''orderType''),
           (''productId'', js_prop product ''id''),
           (''size'', js_prop arg ''size''),
           (''timeType'', or_default (js_prop arg ''timeType'') (TimeTypes_day c)),
           (''price'', js_prop arg ''price''),
           (''stopPrice'', js_prop arg ''stopPrice'')]"

definition buy :: "'w env \<Rightarrow> json \<Rightarrow> ('w, json) promise" where
  "buy env arg st =
     (if isNil arg then (Inl TypeError, st)
      else
        pthen
          (pthen
             (pthen (searchProduct env (search_arg (constants env) arg))
                (\<lambda>result. settle (returnFirstProductResult result)))
             (\<lambda>product. if isNil product then settle (Inl TypeError)
                else checkOrder env (buy_order (constants env) arg product)))
          (confirmOrder env) st)"

definition sell :: "'w env \<Rightarrow> json \<Rightarrow> ('w, json) promise" where
  "sell env arg st =
     (if isNil arg then (Inl TypeError, st)
      else
        pthen
          (pthen
             (pthen (searchProduct env (search_arg (constants env) arg))
                (\<lambda>result. settle (returnFirstProductResult result)))
             (\<lambda>product. if isNil product then settle (Inl TypeError)
                else checkOrder env (sell_order (constants env) arg product)))
          (confirmOrder env) st)"

text \<open>The three requests of a \<^verbatim>\<open>buy\<close>, and the two of a \<^verbatim>\<open>sell\<close> that differ from them.\<close>

definition buy_search_request :: "'w env \<Rightarrow> 'w state \<Rightarrow> json \<Rightarrow> request" where
  "buy_search_request env st arg =
     searchProduct_request env (session st) (search_arg (constants env) arg)"

definition buy_check_request :: "'w env \<Rightarrow> 'w state \<Rightarrow> json \<Rightarrow> json \<Rightarrow> request" where
  "buy_check_request env st arg product =
     checkOrder_request env (session st) (buy_order (constants env) arg product)"

definition buy_confirm_request :: "'w env \<Rightarrow> 'w state \<Rightarrow> json \<Rightarrow> json \<Rightarrow> json \<Rightarrow> request" where
  "buy_confirm_request env st arg product confirmationId =
     confirmOrder_request env (session st)
       (JObj [(''order'', buy_order (constants env) arg product),
              (''confirmationId'', confirmationId)])"

section \<open>A scripted remote side\<close>

text \<open>
  For running the client on concrete inputs: a remote side that is the list of the
  answers still to come, simple encoders (no escaping, which the inputs below do not need),
  and a cookie parser for a header of one \<^verbatim>\<open>NAME=VALUE\<close> pair.
\<close>

type_synonym script = "(js_error + response) list"

definition scripted_fetch :: "script \<Rightarrow> request \<Rightarrow> (js_error + response) \<times> script" where
  "scripted_fetch w req =
     (case w of [] \<Rightarrow> (Inl (FetchError ''no answer''), []) | r # rs \<Rightarrow> (r, rs))"

definition one_cookie :: "string \<Rightarrow> (string \<times> string) list" where
  "one_cookie h =
     (if CHR ''='' \<in> set h
      then [(takeWhile (\<lambda>c. c \<noteq> CHR ''='') h, drop 1 (dropWhile (\<lambda>c. c \<noteq> CHR ''='') h))]
      else [])"

definition plain_query :: "(string \<times> json) list \<Rightarrow> string" where
  "plain_query kvs = join ''&'' (map (\<lambda>kv. fst kv @ ''='' @ js_to_string (snd kv)) kvs)"

fun plain_json :: "json \<Rightarrow> string" where
  "plain_json JUndefined = ''null''"
| "plain_json JNull = ''null''"
| "plain_json (JBool b) = (if b then ''true'' else ''false'')"
| "plain_json (JNum i) = int_to_string i"
| "plain_json (JStr s) = [CHR 0x22] @ s @ [CHR 0x22]"
| "plain_json (JArr xs) = ''['' @ join '','' (map plain_json xs) @ '']''"
| "plain_json (JObj kvs) =
     ''{'' @ join '',''
       (map (\<lambda>kv. [CHR 0x22] @ fst kv @ [CHR 0x22] @ '':'' @ plain_json (snd kv))
          (filter (\<lambda>kv. snd kv \<noteq> JUndefined) kvs)) @ ''}''"

text \<open>
  Sample values for the constants: \<^verbatim>\<open>ProductTypes.all\<close> is \<^verbatim>\<open>undefined\<close> here, a search
  that does not filter by type.
\<close>

definition sample_constants :: constants where
  "sample_constants =
     \<lparr>Actions_buy = JStr ''BUY'', Actions_sell = JStr ''SELL'', ProductTypes_all = JUndefined,
      ProductTypes_shares = JNum 1, TimeTypes_day = JNum 1\<rparr>"

definition sample_env :: "script env" where
  "sample_env =
     \<lparr>fetch = scripted_fetch, parseCookies = one_cookie, querystring_stringify = plain_query,
      JSON_stringify = plain_json, constants = sample_constants,
      username = JStr ''alice'', password = JStr ''secret''\<rparr>"

definition answer :: "json \<Rightarrow> js_error + response" where
  "answer body = Inr \<lparr>set_cookie = None, json_body = Inr body\<rparr>"

definition sample_state :: "script \<Rightarrow> script state" where
  "sample_state w =
     \<lparr>session = \<lparr>session_id = JStr ''S1'', session_account = JNum 42\<rparr>, world = w, calls = []\<rparr>"

definition sample_arg :: json where
  "sample_arg =
     JObj [(''orderType'', JNum 0), (''productSymbol'', JStr ''AAPL''), (''size'', JNum 10),
           (''price'', JNum 150)]"

definition cash_example :: json where
  "cash_example =
     JObj [(''cashFunds'', JObj [(''value'', JArr [JObj [(''value'',
       JArr [JObj [(''name'', JStr ''EUR''), (''value'', JNum 0)],
             JObj [(''name'', JStr ''handling''), (''value'', JNum 1)]])]])])]"

definition found_X1 :: json where
  "found_X1 = JObj [(''data'', JArr [JObj [(''id'', JStr ''X1'')]])]"

definition checked_C1 :: json where
  "checked_C1 = JObj [(''status'', JNum 0), (''confirmationId'', JStr ''C1'')]"

definition confirmed_O1 :: json where
  "confirmed_O1 = JObj [(''status'', JNum 0), (''orderId'', JStr ''O1'')]"

definition rejected_funds :: json where
  "rejected_funds = JObj [(''status'', JNum 1), (''message'', JStr ''insufficient funds'')]"

section \<open>Promise chains, step by step\<close>

lemma pthen_Inr: "p st = (Inr a, st') \<Longrightarrow> pthen p f st = f a st'"
  by (simp add: pthen_def)

lemma pthen_Inl: "p st = (Inl e, st') \<Longrightarrow> pthen p f st = (Inl e, st')"
  by (simp add: pthen_def)

lemma fetch_json_eq:
  "fetch env (world st) req = (Inr res, w') \<Longrightarrow>
   fetch_json env req st = (json_body res, st\<lparr>world := w', calls := calls st @ [req]\<rparr>)"
  by (simp add: fetch_json_def pthen_def do_fetch_def settle_def)

section \<open>The success check decides by the status alone\<close>

text \<open>
  Claim C1. For every response of a write call that properties can be read of (anything
  but \<^verbatim>\<open>null\<close>): when its \<^verbatim>\<open>status\<close> is the number 0, \<^verbatim>\<open>checkSuccess\<close> returns the
  response itself, unchanged; when \<^verbatim>\<open>status\<close> is anything else (absent included), it throws
  \<^verbatim>\<open>Error(res.message)\<close>, and for a \<^verbatim>\<open>message\<close> that is a string the error carries
  exactly that string.
\<close>

theorem checkSuccess_spec:
  assumes "\<not> isNil res"
  shows "(js_prop res ''status'' = JNum 0 \<longrightarrow> checkSuccess res = Inr res)
       \<and> (js_prop res ''status'' \<noteq> JNum 0 \<longrightarrow>
            checkSuccess res = Inl (new_Error (js_prop res ''message''))
          \<and> (\<forall>m. js_prop res ''message'' = JStr m \<longrightarrow> checkSuccess res = Inl (Error m)))"
  using assms by (simp add: checkSuccess_def get_prop_def new_Error_def)

theorem checkSuccess_spec_witness:
  "checkSuccess (JObj [(''status'', JNum 0), (''confirmationId'', JStr ''C1'')])
     = Inr (JObj [(''status'', JNum 0), (''confirmationId'', JStr ''C1'')])
   \<and> checkSuccess (JObj [(''status'', JNum 1), (''message'', JStr ''insufficient funds'')])
     = Inl (Error ''insufficient funds'')"
  using checkSuccess_spec [of "JObj [(''status'', JNum 0), (''confirmationId'', JStr ''C1'')]"]
    checkSuccess_spec [of "JObj [(''status'', JNum 1), (''message'', JStr ''insufficient funds'')]"]
  by (simp add: isNil_def new_Error_def)

section \<open>Steps of the order workflow\<close>

lemma searchProduct_eq:
  "\<not> isNil arg \<Longrightarrow>
   fetch env (world st) (searchProduct_request env (session st) arg) = (Inr res, w') \<Longrightarrow>
   searchProduct env arg st =
     (json_body res,
      st\<lparr>world := w', calls := calls st @ [searchProduct_request env (session st) arg]\<rparr>)"
  by (simp add: searchProduct_def fetch_json_eq)

lemma search_arg_not_nil: "\<not> isNil (search_arg c arg)"
  by (simp add: search_arg_def isNil_def)

lemma buy_order_not_nil: "\<not> isNil (buy_order c arg product)"
  by (simp add: buy_order_def isNil_def)

lemma sell_order_not_nil: "\<not> isNil (sell_order c arg product)"
  by (simp add: sell_order_def isNil_def)

lemma checkOrder_eq:
  "\<not> isNil order \<Longrightarrow>
   fetch env (world st) (checkOrder_request env (session st) order) = (Inr res, w') \<Longrightarrow>
   json_body res = Inr j \<Longrightarrow>
   checkOrder env order st =
     ((case checkSuccess j of
         Inl e \<Rightarrow> Inl e
       | Inr j' \<Rightarrow> Inr (JObj [(''order'', order), (''confirmationId'', js_prop j' ''confirmationId'')])),
      st\<lparr>world := w', calls := calls st @ [checkOrder_request env (session st) order]\<rparr>)"
  by (simp add: checkOrder_def fetch_json_eq pthen_def settle_def split: sum.splits)

lemma confirmOrder_eq:
  "\<not> isNil arg \<Longrightarrow>
   fetch env (world st) (confirmOrder_request env (session st) arg) = (Inr res, w') \<Longrightarrow>
   json_body res = Inr j \<Longrightarrow>
   confirmOrder env arg st =
     ((case checkSuccess j of
         Inl e \<Rightarrow> Inl e
       | Inr j' \<Rightarrow> Inr (JObj [(''orderId'', js_prop j' ''orderId'')])),
      st\<lparr>world := w', calls := calls st @ [confirmOrder_request env (session st) arg]\<rparr>)"
  by (simp add: confirmOrder_def fetch_json_eq pthen_def settle_def split: sum.splits)

lemma buy_search_step:
  assumes "fetch env (world st) (buy_search_request env st arg) = (Inr r1, w1)"
    and "json_body r1 = Inr result"
  shows "pthen (searchProduct env (search_arg (constants env) arg))
           (\<lambda>result. settle (returnFirstProductResult result)) st =
         (returnFirstProductResult result,
          st\<lparr>world := w1, calls := calls st @ [buy_search_request env st arg]\<rparr>)"
  using assms
  by (simp add: pthen_def searchProduct_eq [OF search_arg_not_nil] buy_search_request_def settle_def)

lemma returnFirst_Cons:
  "get_prop result ''data'' = Inr (JArr (product # rest)) \<Longrightarrow>
   returnFirstProductResult result = Inr product"
  by (simp add: returnFirstProductResult_def)

lemma returnFirst_not_found:
  "\<not> isNil result \<Longrightarrow> js_prop result ''data'' = JArr [] \<or> \<not> isArray (js_prop result ''data'') \<Longrightarrow>
   returnFirstProductResult result = Inl (Error ''Product not found'')"
  by (cases "js_prop result ''data''") (auto simp: returnFirstProductResult_def get_prop_def)

lemma buy_after_search:
  assumes "\<not> isNil arg"
    and "fetch env (world st) (buy_search_request env st arg) = (Inr r1, w1)"
    and "json_body r1 = Inr result"
  shows "buy env arg st =
     (case returnFirstProductResult result of
        Inl e \<Rightarrow> (Inl e, st\<lparr>world := w1, calls := calls st @ [buy_search_request env st arg]\<rparr>)
      | Inr product \<Rightarrow>
          if isNil product
          then (Inl TypeError, st\<lparr>world := w1, calls := calls st @ [buy_search_request env st arg]\<rparr>)
          else pthen (checkOrder env (buy_order (constants env) arg product)) (confirmOrder env)
                 (st\<lparr>world := w1, calls := calls st @ [buy_search_request env st arg]\<rparr>))"
  using assms(1) buy_search_step [OF assms(2,3)]
  by (simp add: buy_def pthen_def settle_def split: sum.splits)

lemma sell_after_search:
  assumes "\<not> isNil arg"
    and "fetch env (world st) (buy_search_request env st arg) = (Inr r1, w1)"
    and "json_body r1 = Inr result"
  shows "sell env arg st =
     (case returnFirstProductResult result of
        Inl e \<Rightarrow> (Inl e, st\<lparr>world := w1, calls := calls st @ [buy_search_request env st arg]\<rparr>)
      | Inr product \<Rightarrow>
          if isNil product
          then (Inl TypeError, st\<lparr>world := w1, calls := calls st @ [buy_search_request env st arg]\<rparr>)
          else pthen (checkOrder env (sell_order (constants env) arg product)) (confirmOrder env)
                 (st\<lparr>world := w1, calls := calls st @ [buy_search_request env st arg]\<rparr>))"
  using assms(1) buy_search_step [OF assms(2,3)]
  by (simp add: sell_def pthen_def settle_def split: sum.splits)

lemma get_prop_InrD: "get_prop v k = Inr x \<Longrightarrow> \<not> isNil v \<and> js_prop v k = x"
  by (simp add: get_prop_def split: if_splits)

section \<open>Runs of the order workflow\<close>

text \<open>
  Claim C2. In a run of \<^verbatim>\<open>buy\<close> where the search answers with a \<^verbatim>\<open>data\<close> sequence of one
  product whose \<^verbatim>\<open>id\<close> is \<^verbatim>\<open>"X1"\<close>, the check answers with \<^verbatim>\<open>status\<close> 0 and
  \<^verbatim>\<open>confirmationId\<close> \<^verbatim>\<open>"C1"\<close>, and the confirmation answers with \<^verbatim>\<open>status\<close> 0 and
  \<^verbatim>\<open>orderId\<close> \<^verbatim>\<open>"O1"\<close>: \<^verbatim>\<open>buy\<close> resolves to \<^verbatim>\<open>{orderId: "O1"}\<close> after exactly the
  three requests search, check, confirm; the body sent to the confirm endpoint equals the
  body sent to the check endpoint, which is the encoded order, built with product id
  \<^verbatim>\<open>"X1"\<close>.
\<close>

theorem buy_success_scenario:
  assumes "\<not> isNil arg"
    and "fetch env (world st) (buy_search_request env st arg) = (Inr r1, w1)"
    and "json_body r1 = Inr result"
    and "get_prop result ''data'' = Inr (JArr [product])"
    and "get_prop product ''id'' = Inr (JStr ''X1'')"
    and "fetch env w1 (buy_check_request env st arg product) = (Inr r2, w2)"
    and "json_body r2 = Inr checked"
    and "get_prop checked ''status'' = Inr (JNum 0)"
    and "get_prop checked ''confirmationId'' = Inr (JStr ''C1'')"
    and "fetch env w2 (buy_confirm_request env st arg product (JStr ''C1'')) = (Inr r3, w3)"
    and "json_body r3 = Inr confirmed"
    and "get_prop confirmed ''status'' = Inr (JNum 0)"
    and "get_prop confirmed ''orderId'' = Inr (JStr ''O1'')"
  shows "buy env arg st =
           (Inr (JObj [(''orderId'', JStr ''O1'')]),
            st\<lparr>world := w3,
               calls := calls st @ [buy_search_request env st arg,
                                    buy_check_request env st arg product,
                                    buy_confirm_request env st arg product (JStr ''C1'')]\<rparr>)
       \<and> req_body (buy_confirm_request env st arg product (JStr ''C1''))
           = req_body (buy_check_request env st arg product)
       \<and> req_body (buy_check_request env st arg product)
           = Some (JSON_stringify env (buy_order (constants env) arg product))
       \<and> js_prop (buy_order (constants env) arg product) ''productId'' = JStr ''X1''"
proof -
  let ?st1 = "st\<lparr>world := w1, calls := calls st @ [buy_search_request env st arg]\<rparr>"
  let ?order = "buy_order (constants env) arg product"
  let ?st2 = "?st1\<lparr>world := w2, calls := calls ?st1 @ [buy_check_request env st arg product]\<rparr>"
  let ?token = "JObj [(''order'', ?order), (''confirmationId'', JStr ''C1'')]"
  note p = get_prop_InrD [OF assms(5)] and c = get_prop_InrD [OF assms(9)]
    and d = get_prop_InrD [OF assms(13)]
  have s1: "buy env arg st = pthen (checkOrder env ?order) (confirmOrder env) ?st1"
    using buy_after_search [OF assms(1,2,3)] returnFirst_Cons [OF assms(4)] p by simp
  have ok2: "checkSuccess checked = Inr checked"
    using assms(8) by (simp add: checkSuccess_def)
  have s2: "checkOrder env ?order ?st1 = (Inr ?token, ?st2)"
    using checkOrder_eq [of ?order env ?st1 r2 w2 checked] assms(6,7) ok2 c
    by (simp add: buy_order_not_nil buy_check_request_def)
  have ok3: "checkSuccess confirmed = Inr confirmed"
    using assms(12) by (simp add: checkSuccess_def)
  have s3: "confirmOrder env ?token ?st2 =
      (Inr (JObj [(''orderId'', JStr ''O1'')]),
       ?st2\<lparr>world := w3, calls := calls ?st2 @ [buy_confirm_request env st arg product (JStr ''C1'')]\<rparr>)"
    using confirmOrder_eq [of ?token env ?st2 r3 w3 confirmed] assms(10,11) ok3 d
    by (simp add: isNil_def buy_confirm_request_def)
  have run: "buy env arg st =
      (Inr (JObj [(''orderId'', JStr ''O1'')]),
       ?st2\<lparr>world := w3, calls := calls ?st2 @ [buy_confirm_request env st arg product (JStr ''C1'')]\<rparr>)"
    using s1 s2 s3 by (simp add: pthen_def)
  have pid: "js_prop ?order ''productId'' = JStr ''X1''"
    using p by (simp add: buy_order_def)
  have bodies: "req_body (buy_confirm_request env st arg product (JStr ''C1''))
      = req_body (buy_check_request env st arg product)"
    "req_body (buy_check_request env st arg product) = Some (JSON_stringify env ?order)"
    by (simp_all add: buy_confirm_request_def buy_check_request_def confirmOrder_request_def
        checkOrder_request_def POST_def json_body_of_def buy_order_def)
  from run pid bodies show ?thesis by simp
qed

theorem buy_success_scenario_witness:
  "fst (buy sample_env sample_arg (sample_state [answer found_X1, answer checked_C1, answer confirmed_O1]))
     = Inr (JObj [(''orderId'', JStr ''O1'')])
   \<and> world (snd (buy sample_env sample_arg
        (sample_state [answer found_X1, answer checked_C1, answer confirmed_O1]))) = []"
  using buy_success_scenario [of sample_arg sample_env
      "sample_state [answer found_X1, answer checked_C1, answer confirmed_O1]"
      "\<lparr>set_cookie = None, json_body = Inr found_X1\<rparr>" "[answer checked_C1, answer confirmed_O1]"
      found_X1 "JObj [(''id'', JStr ''X1'')]"
      "\<lparr>set_cookie = None, json_body = Inr checked_C1\<rparr>" "[answer confirmed_O1]" checked_C1
      "\<lparr>set_cookie = None, json_body = Inr confirmed_O1\<rparr>" "[]" confirmed_O1]
  by (simp add: sample_env_def sample_state_def sample_arg_def scripted_fetch_def answer_def
      found_X1_def checked_C1_def confirmed_O1_def get_prop_def isNil_def)

text \<open>
  Claim C4. In every run of \<^verbatim>\<open>buy\<close> where the search answers with an empty \<^verbatim>\<open>data\<close>
  sequence, \<^verbatim>\<open>buy\<close> fails with \<^verbatim>\<open>Error('Product not found')\<close>, and the search is the only
  request the run issues: neither the check nor the confirm call is made.
\<close>

theorem buy_product_not_found:
  assumes "\<not> isNil arg"
    and "fetch env (world st) (buy_search_request env st arg) = (Inr r1, w1)"
    and "json_body r1 = Inr result"
    and "get_prop result ''data'' = Inr (JArr [])"
  shows "buy env arg st =
           (Inl (Error ''Product not found''),
            st\<lparr>world := w1, calls := calls st @ [buy_search_request env st arg]\<rparr>)"
  using buy_after_search [OF assms(1,2,3)] get_prop_InrD [OF assms(4)]
  by (simp add: returnFirst_not_found)

theorem buy_product_not_found_witness:
  "buy sample_env sample_arg (sample_state [answer (JObj [(''data'', JArr [])])]) =
     (Inl (Error ''Product not found''),
      (sample_state [])\<lparr>calls :=
         [buy_search_request sample_env (sample_state [answer (JObj [(''data'', JArr [])])]) sample_arg]\<rparr>)"
  using buy_product_not_found [of sample_arg sample_env
      "sample_state [answer (JObj [(''data'', JArr [])])]"
      "\<lparr>set_cookie = None, json_body = Inr (JObj [(''data'', JArr [])])\<rparr>" "[]"
      "JObj [(''data'', JArr [])]"]
  by (simp add: sample_env_def sample_state_def sample_arg_def scripted_fetch_def answer_def
      get_prop_def isNil_def)

text \<open>
  Claim C5. In every run of \<^verbatim>\<open>buy\<close> where the check call answers with \<^verbatim>\<open>status\<close> 1 and
  \<^verbatim>\<open>message\<close> \<^verbatim>\<open>"insufficient funds"\<close>, \<^verbatim>\<open>buy\<close> fails with an error whose message is
  exactly \<^verbatim>\<open>"insufficient funds"\<close>, and the run issues the search and the check only: the
  confirm call is never made.
\<close>

theorem buy_check_rejected:
  assumes "\<not> isNil arg"
    and "fetch env (world st) (buy_search_request env st arg) = (Inr r1, w1)"
    and "json_body r1 = Inr result"
    and "get_prop result ''data'' = Inr (JArr (product # rest))"
    and "\<not> isNil product"
    and "fetch env w1 (buy_check_request env st arg product) = (Inr r2, w2)"
    and "json_body r2 = Inr checked"
    and "get_prop checked ''status'' = Inr (JNum 1)"
    and "get_prop checked ''message'' = Inr (JStr ''insufficient funds'')"
  shows "buy env arg st =
           (Inl (Error ''insufficient funds''),
            st\<lparr>world := w2,
               calls := calls st @ [buy_search_request env st arg,
                                    buy_check_request env st arg product]\<rparr>)"
proof -
  let ?st1 = "st\<lparr>world := w1, calls := calls st @ [buy_search_request env st arg]\<rparr>"
  let ?order = "buy_order (constants env) arg product"
  have s1: "buy env arg st = pthen (checkOrder env ?order) (confirmOrder env) ?st1"
    using buy_after_search [OF assms(1,2,3)] returnFirst_Cons [OF assms(4)] assms(5) by simp
  have no: "checkSuccess checked = Inl (Error ''insufficient funds'')"
    using assms(8,9) by (simp add: checkSuccess_def new_Error_def)
  have "checkOrder env ?order ?st1 =
      (Inl (Error ''insufficient funds''),
       ?st1\<lparr>world := w2, calls := calls ?st1 @ [buy_check_request env st arg product]\<rparr>)"
    using checkOrder_eq [of ?order env ?st1 r2 w2 checked] assms(6,7) no
    by (simp add: buy_order_not_nil buy_check_request_def)
  with s1 show ?thesis by (simp add: pthen_def)
qed

theorem buy_check_rejected_witness:
  "buy sample_env sample_arg (sample_state [answer found_X1, answer rejected_funds, answer confirmed_O1]) =
     (Inl (Error ''insufficient funds''),
      (sample_state [answer confirmed_O1])\<lparr>calls :=
         [buy_search_request sample_env (sample_state []) sample_arg,
          buy_check_request sample_env (sample_state []) sample_arg (JObj [(''id'', JStr ''X1'')])]\<rparr>)"
  using buy_check_rejected [of sample_arg sample_env
      "sample_state [answer found_X1, answer rejected_funds, answer confirmed_O1]"
      "\<lparr>set_cookie = None, json_body = Inr found_X1\<rparr>" "[answer rejected_funds, answer confirmed_O1]"
      found_X1 "JObj [(''id'', JStr ''X1'')]" "[]"
      "\<lparr>set_cookie = None, json_body = Inr rejected_funds\<rparr>" "[answer confirmed_O1]" rejected_funds]
  by (simp add: sample_env_def sample_state_def sample_arg_def scripted_fetch_def answer_def
      found_X1_def rejected_funds_def get_prop_def isNil_def buy_search_request_def
      buy_check_request_def)

text \<open>
  Claim C10. For every search result that properties can be read of and whose \<^verbatim>\<open>data\<close> is
  absent or is no array, \<^verbatim>\<open>returnFirstProductResult\<close> throws the same
  \<^verbatim>\<open>Error('Product not found')\<close> as for an empty \<^verbatim>\<open>data\<close> array, and both \<^verbatim>\<open>buy\<close> and
  \<^verbatim>\<open>sell\<close> fail with it after the search request alone.
\<close>

theorem malformed_search_is_not_found:
  assumes "\<not> isNil arg"
    and "fetch env (world st) (buy_search_request env st arg) = (Inr r1, w1)"
    and "json_body r1 = Inr result"
    and "\<not> isNil result"
    and "\<not> isArray (js_prop result ''data'')"
  shows "returnFirstProductResult result = Inl (Error ''Product not found'')
       \<and> returnFirstProductResult (JObj [(''data'', JArr [])]) = returnFirstProductResult result
       \<and> buy env arg st =
           (Inl (Error ''Product not found''),
            st\<lparr>world := w1, calls := calls st @ [buy_search_request env st arg]\<rparr>)
       \<and> sell env arg st =
           (Inl (Error ''Product not found''),
            st\<lparr>world := w1, calls := calls st @ [buy_search_request env st arg]\<rparr>)"
proof -
  have nf: "returnFirstProductResult result = Inl (Error ''Product not found'')"
    using assms(4,5) by (simp add: returnFirst_not_found)
  have empty: "returnFirstProductResult (JObj [(''data'', JArr [])]) = Inl (Error ''Product not found'')"
    by (simp add: returnFirstProductResult_def get_prop_def isNil_def)
  have b: "buy env arg st =
      (Inl (Error ''Product not found''),
       st\<lparr>world := w1, calls := calls st @ [buy_search_request env st arg]\<rparr>)"
    unfolding buy_after_search [OF assms(1,2,3)] nf by simp
  have s: "sell env arg st =
      (Inl (Error ''Product not found''),
       st\<lparr>world := w1, calls := calls st @ [buy_search_request env st arg]\<rparr>)"
    unfolding sell_after_search [OF assms(1,2,3)] nf by simp
  show ?thesis
    unfolding nf empty using b s by blast
qed

theorem malformed_search_is_not_found_witness:
  "fst (buy sample_env sample_arg (sample_state [answer (JObj [(''error'', JStr ''down'')])]))
     = Inl (Error ''Product not found'')
   \<and> fst (sell sample_env sample_arg (sample_state [answer (JObj [(''data'', JStr ''none'')])]))
     = Inl (Error ''Product not found'')
   \<and> length (calls (snd (sell sample_env sample_arg
        (sample_state [answer (JObj [(''data'', JStr ''none'')])])))) = 1"
proof -
  let ?down = "JObj [(''error'', JStr ''down'')]" and ?none = "JObj [(''data'', JStr ''none'')]"
  have fetched: "fetch sample_env (world (sample_state [answer body])) req =
      (Inr \<lparr>set_cookie = None, json_body = Inr body\<rparr>, [])" for body req
    by (simp add: sample_env_def sample_state_def scripted_fetch_def answer_def)
  have arg: "\<not> isNil sample_arg"
    by (simp add: sample_arg_def isNil_def)
  have start: "calls (sample_state w) = []" for w
    by (simp add: sample_state_def)
  have "fst (buy sample_env sample_arg (sample_state [answer ?down])) = Inl (Error ''Product not found'')"
    using malformed_search_is_not_found [OF arg fetched, of ?down ?down]
    by (simp add: isNil_def)
  moreover have "fst (sell sample_env sample_arg (sample_state [answer ?none]))
        = Inl (Error ''Product not found'')
      \<and> length (calls (snd (sell sample_env sample_arg (sample_state [answer ?none])))) = 1"
    using malformed_search_is_not_found [OF arg fetched, of ?none ?none]
    by (simp add: isNil_def start)
  ultimately show ?thesis by simp
qed

text \<open>A search result that is \<^verbatim>\<open>null\<close> has no fields to read: the read itself throws.\<close>

lemma returnFirst_null: "returnFirstProductResult JNull = Inl TypeError"
  by (simp add: returnFirstProductResult_def get_prop_def isNil_def)

section \<open>Buying and selling\<close>









section \<open>What a login leaves in the session\<close>

lemma updateClientInfo_eq:
  assumes "fetch env (world st) (clientInfo_request (session_id (session st))) = (Inr r2, w2)"
    and "json_body r2 = Inr profile"
    and "\<not> isNil profile"
  shows "updateClientInfo env st =
     (Inr (),
      st\<lparr>world := w2,
         calls := calls st @ [clientInfo_request (session_id (session st))],
         session := (session st)\<lparr>session_account := js_prop profile ''intAccount''\<rparr>\<rparr>)"
  using assms
  by (simp add: updateClientInfo_def fetch_json_eq pthen_def set_account_def)

lemma login_after_fetch:
  assumes "fetch env (world st) (login_request env) = (Inr res, w1)"
  shows "login env st =
     (if \<not> truthy (cookie_JSESSIONID env res)
      then (Inl (Error ''Login error''),
            st\<lparr>world := w1, calls := calls st @ [login_request env],
               session := (session st)\<lparr>session_id := cookie_JSESSIONID env res\<rparr>\<rparr>)
      else pthen (updateClientInfo env) (\<lambda>_ st. (Inr (session st), st))
            (st\<lparr>world := w1, calls := calls st @ [login_request env],
               session := (session st)\<lparr>session_id := cookie_JSESSIONID env res\<rparr>\<rparr>))"
  using assms
  by (simp add: login_def pthen_def do_fetch_def set_id_def Let_def)

text \<open>
  Claim C3. Let the login request be answered. When the answer carries a non-empty session
  cookie and the profile call that follows is answered with a body whose \<^verbatim>\<open>intAccount\<close> can
  be read, \<^verbatim>\<open>login\<close> resolves to the session, with the token set to the cookie and the
  account set to that \<^verbatim>\<open>intAccount\<close>, after the two requests. When the answer carries no
  session cookie (or an empty one), \<^verbatim>\<open>login\<close> fails with \<^verbatim>\<open>Error('Login error')\<close>, the
  account of the session is what it was, and the profile call is not made.
\<close>

theorem login_spec:
  assumes "fetch env (world st) (login_request env) = (Inr res, w1)"
  shows "(\<forall>token r2 w2 profile account.
            session_cookie env res = Some token \<and> token \<noteq> [] \<and>
            fetch env w1 (clientInfo_request (JStr token)) = (Inr r2, w2) \<and>
            json_body r2 = Inr profile \<and> get_prop profile ''intAccount'' = Inr account \<longrightarrow>
            login env st =
              (Inr \<lparr>session_id = JStr token, session_account = account\<rparr>,
               st\<lparr>session := \<lparr>session_id = JStr token, session_account = account\<rparr>,
                  world := w2,
                  calls := calls st @ [login_request env, clientInfo_request (JStr token)]\<rparr>))
       \<and> (session_cookie env res = None \<or> session_cookie env res = Some [] \<longrightarrow>
            fst (login env st) = Inl (Error ''Login error'') \<and>
            session_account (session (snd (login env st))) = session_account (session st) \<and>
            calls (snd (login env st)) = calls st @ [login_request env])"
proof (intro conjI allI impI)
  fix token r2 w2 profile account
  assume h: "session_cookie env res = Some token \<and> token \<noteq> [] \<and>
            fetch env w1 (clientInfo_request (JStr token)) = (Inr r2, w2) \<and>
            json_body r2 = Inr profile \<and> get_prop profile ''intAccount'' = Inr account"
  let ?st1 = "st\<lparr>world := w1, calls := calls st @ [login_request env],
               session := (session st)\<lparr>session_id := JStr token\<rparr>\<rparr>"
  from h have c: "cookie_JSESSIONID env res = JStr token" and t: "token \<noteq> []"
    by (simp_all add: cookie_JSESSIONID_def)
  from h have f: "fetch env w1 (clientInfo_request (JStr token)) = (Inr r2, w2)"
    and j: "json_body r2 = Inr profile" and g: "get_prop profile ''intAccount'' = Inr account"
    by simp_all
  note p = get_prop_InrD [OF g]
  have u: "updateClientInfo env ?st1 =
     (Inr (),
      ?st1\<lparr>world := w2,
         calls := calls ?st1 @ [clientInfo_request (session_id (session ?st1))],
         session := (session ?st1)\<lparr>session_account := js_prop profile ''intAccount''\<rparr>\<rparr>)"
    using updateClientInfo_eq [of env ?st1 r2 w2 profile] f j p by simp
  show "login env st =
              (Inr \<lparr>session_id = JStr token, session_account = account\<rparr>,
               st\<lparr>session := \<lparr>session_id = JStr token, session_account = account\<rparr>,
                  world := w2,
                  calls := calls st @ [login_request env, clientInfo_request (JStr token)]\<rparr>)"
    using c t p u by (simp add: login_after_fetch [OF assms] pthen_def)
next
  assume "session_cookie env res = None \<or> session_cookie env res = Some []"
  then have "\<not> truthy (cookie_JSESSIONID env res)"
    by (auto simp: cookie_JSESSIONID_def)
  then have l: "login env st = (Inl (Error ''Login error''),
            st\<lparr>world := w1, calls := calls st @ [login_request env],
               session := (session st)\<lparr>session_id := cookie_JSESSIONID env res\<rparr>\<rparr>)"
    by (simp add: login_after_fetch [OF assms])
  show "fst (login env st) = Inl (Error ''Login error'')"
    "session_account (session (snd (login env st))) = session_account (session st)"
    "calls (snd (login env st)) = calls st @ [login_request env]"
    by (simp_all add: l)
qed

theorem login_spec_witness:
  "login sample_env
     (sample_state [Inr \<lparr>set_cookie = Some ''JSESSIONID=T1'', json_body = Inl (FetchError ''no JSON'')\<rparr>,
                    answer (JObj [(''intAccount'', JNum 7)])])
     = (Inr \<lparr>session_id = JStr ''T1'', session_account = JNum 7\<rparr>,
        \<lparr>session = \<lparr>session_id = JStr ''T1'', session_account = JNum 7\<rparr>, world = [],
           calls = [login_request sample_env, clientInfo_request (JStr ''T1'')]\<rparr>)
   \<and> fst (login sample_env (sample_state [answer JNull])) = Inl (Error ''Login error'')
   \<and> session_account (session (snd (login sample_env (sample_state [answer JNull])))) = JNum 42"
proof -
  let ?res = "\<lparr>set_cookie = Some ''JSESSIONID=T1'', json_body = Inl (FetchError ''no JSON'')\<rparr>"
  let ?profile = "JObj [(''intAccount'', JNum 7)]"
  let ?st = "sample_state [Inr ?res, answer ?profile]"
  have a: "fetch sample_env (world ?st) (login_request sample_env) = (Inr ?res, [answer ?profile])"
    by (simp add: sample_env_def sample_state_def scripted_fetch_def)
  have c: "session_cookie sample_env ?res = Some ''T1''"
    by (simp add: session_cookie_def sample_env_def one_cookie_def)
  have f: "fetch sample_env [answer ?profile] (clientInfo_request (JStr ''T1''))
      = (Inr \<lparr>set_cookie = None, json_body = Inr ?profile\<rparr>, [])"
    by (simp add: sample_env_def scripted_fetch_def answer_def)
  have g: "get_prop ?profile ''intAccount'' = Inr (JNum 7)"
    by (simp add: get_prop_def isNil_def)
  from login_spec [OF a] c f g
  have ok: "login sample_env ?st
     = (Inr \<lparr>session_id = JStr ''T1'', session_account = JNum 7\<rparr>,
        ?st\<lparr>session := \<lparr>session_id = JStr ''T1'', session_account = JNum 7\<rparr>, world := [],
           calls := calls ?st @ [login_request sample_env, clientInfo_request (JStr ''T1'')]\<rparr>)"
    by simp
  let ?none = "\<lparr>set_cookie = None, json_body = Inr JNull\<rparr>"
  have b: "fetch sample_env (world (sample_state [answer JNull])) (login_request sample_env)
      = (Inr ?none, [])"
    by (simp add: sample_env_def sample_state_def scripted_fetch_def answer_def)
  have n: "session_cookie sample_env ?none = None"
    by (simp add: session_cookie_def sample_env_def one_cookie_def)
  from login_spec [OF b] n
  have no: "fst (login sample_env (sample_state [answer JNull])) = Inl (Error ''Login error'')"
    "session_account (session (snd (login sample_env (sample_state [answer JNull]))))
      = session_account (session (sample_state [answer JNull]))"
    by simp_all
  from ok no show ?thesis
    by (simp add: sample_state_def)
qed

text \<open>
  Claim C9. In every run of \<^verbatim>\<open>login\<close> whose answer carries no session cookie, the token of
  the session is overwritten with \<^verbatim>\<open>undefined\<close> before the failure: the state left behind
  is the one before, with the login request logged and the token \<^verbatim>\<open>undefined\<close>, the account
  untouched. A token given at construction is lost in this way.
\<close>

theorem failed_login_clobbers_token:
  assumes "fetch env (world st) (login_request env) = (Inr res, w1)"
    and "session_cookie env res = None"
  shows "login env st =
           (Inl (Error ''Login error''),
            st\<lparr>world := w1, calls := calls st @ [login_request env],
               session := (session st)\<lparr>session_id := JUndefined\<rparr>\<rparr>)"
  using assms(2) by (simp add: login_after_fetch [OF assms(1)] cookie_JSESSIONID_def)


theorem failed_login_clobbers_token_witness:
  "create_session (\<lambda>v. JUndefined) (JObj [(''sessionId'', JStr ''OLD''), (''account'', JNum 42)])
     = Inr \<lparr>session_id = JStr ''OLD'', session_account = JNum 42\<rparr>
   \<and> login sample_env
       \<lparr>session = \<lparr>session_id = JStr ''OLD'', session_account = JNum 42\<rparr>,
          world = [answer JNull], calls = []\<rparr>
     = (Inl (Error ''Login error''),
        \<lparr>session = \<lparr>session_id = JUndefined, session_account = JNum 42\<rparr>,
           world = [], calls = [login_request sample_env]\<rparr>)"
proof -
  let ?none = "\<lparr>set_cookie = None, json_body = Inr JNull\<rparr>"
  let ?st = "\<lparr>session = \<lparr>session_id = JStr ''OLD'', session_account = JNum 42\<rparr>,
          world = [answer JNull], calls = []\<rparr>"
  have b: "fetch sample_env (world ?st) (login_request sample_env) = (Inr ?none, [])"
    by (simp add: sample_env_def scripted_fetch_def answer_def)
  have n: "session_cookie sample_env ?none = None"
    by (simp add: session_cookie_def sample_env_def one_cookie_def)
  have s: "create_session (\<lambda>v. JUndefined) (JObj [(''sessionId'', JStr ''OLD''), (''account'', JNum 42)])
     = Inr \<lparr>session_id = JStr ''OLD'', session_account = JNum 42\<rparr>"
    by (simp add: create_session_def or_default_def isNil_def)
  from failed_login_clobbers_token [OF b n] s show ?thesis
    by simp
qed

section \<open>Cash funds\<close>

lemma map_result_Inr_set:
  "map_result f xs = Inr ys \<Longrightarrow> y \<in> set ys \<Longrightarrow> \<exists>x\<in>set xs. f x = Inr y"
proof (induction xs arbitrary: ys)
  case Nil
  then show ?case by simp
next
  case (Cons x xs)
  then show ?case
    by (auto split: sum.splits)
qed

lemma cashFunds_entry_Inr:
  assumes "cashFunds_entry entry = Inr out"
  shows "isObject out \<and> \<not> has_key out ''handling'' \<and> \<not> has_key out ''currencyCode''"
proof -
  from assms obtain pairs where
    "out = JObj (omit (fromPairs pairs) [''handling'', ''currencyCode''])"
    by (auto simp: cashFunds_entry_def split: if_splits json.splits sum.splits)
  then show ?thesis
    by (auto simp: omit_def)
qed

lemma getCashFunds_then_Inr:
  assumes "getCashFunds_then env data = Inr out"
  shows "\<exists>es. out = JObj [(''cashFunds'', JArr es)]
      \<and> (\<forall>e\<in>set es. isObject e \<and> \<not> has_key e ''handling'' \<and> \<not> has_key e ''currencyCode'')"
proof -
  from assms obtain entries es where
    m: "map_result cashFunds_entry entries = Inr es" and o: "out = JObj [(''cashFunds'', JArr es)]"
    by (auto simp: getCashFunds_then_def split: if_splits json.splits sum.splits)
  have "isObject e \<and> \<not> has_key e ''handling'' \<and> \<not> has_key e ''currencyCode''"
    if "e \<in> set es" for e
    using map_result_Inr_set [OF m that] cashFunds_entry_Inr by blast
  with o show ?thesis by blast
qed

lemma getCashFunds_then_bad:
  assumes "\<not> isNil data"
    and "\<not> isArray (js_prop (js_prop data ''cashFunds'') ''value'')"
  shows "getCashFunds_then env data = Inl (bad_result env data)"
  using assms by (simp add: getCashFunds_then_def get_prop_def)

lemma getCashFunds_then_example:
  "getCashFunds_then env cash_example = Inr (JObj [(''cashFunds'', JArr [JObj [(''EUR'', JNum 0)]])])"
  by (simp add: getCashFunds_then_def cash_example_def get_prop_def isNil_def cashFunds_entry_def
      name_value_pair_def fromPairs_def omit_def)

lemma getCashFunds_eq:
  assumes "fetch env (world st) (getData_request env (session st) [(''cashFunds'', JNum 0)]) = (Inr res, w1)"
    and "json_body res = Inr data"
  shows "getCashFunds env st =
     (getCashFunds_then env data,
      st\<lparr>world := w1,
         calls := calls st @ [getData_request env (session st) [(''cashFunds'', JNum 0)]]\<rparr>)"
  using assms
  by (simp add: getCashFunds_def getData_def pthen_def fetch_json_eq settle_def)

text \<open>
  Claim C6. Let the request of \<^verbatim>\<open>getCashFunds\<close> be answered with the body \<^verbatim>\<open>data\<close>. On the
  body \<^verbatim>\<open>{cashFunds: {value: [{value: [{name: "EUR", value: 0}, {name: "handling", value: 1}]}]}}\<close>
  the result is \<^verbatim>\<open>{cashFunds: [{EUR: 0}]}\<close>. Whenever there is a result, it is
  \<^verbatim>\<open>{cashFunds: [...]}\<close> and each entry is an object with neither a \<^verbatim>\<open>handling\<close> nor a
  \<^verbatim>\<open>currencyCode\<close> property. On a body (other than \<^verbatim>\<open>null\<close>) where \<^verbatim>\<open>cashFunds\<close> is missing
  or \<^verbatim>\<open>cashFunds.value\<close> is no array, it fails with
  \<^verbatim>\<open>Error('Bad result: ' + JSON.stringify(data))\<close>. One request is issued in each case.
\<close>

theorem getCashFunds_spec:
  assumes "fetch env (world st) (getData_request env (session st) [(''cashFunds'', JNum 0)]) = (Inr res, w1)"
    and "json_body res = Inr data"
  shows "(data = cash_example \<longrightarrow>
            fst (getCashFunds env st) = Inr (JObj [(''cashFunds'', JArr [JObj [(''EUR'', JNum 0)]])]))
       \<and> (\<forall>out. fst (getCashFunds env st) = Inr out \<longrightarrow>
            (\<exists>es. out = JObj [(''cashFunds'', JArr es)]
               \<and> (\<forall>e\<in>set es. isObject e \<and> \<not> has_key e ''handling''
                      \<and> \<not> has_key e ''currencyCode'')))
       \<and> (\<not> isNil data \<and>
            (js_prop data ''cashFunds'' = JUndefined
             \<or> \<not> isArray (js_prop (js_prop data ''cashFunds'') ''value'')) \<longrightarrow>
            fst (getCashFunds env st) = Inl (bad_result env data))
       \<and> calls (snd (getCashFunds env st))
           = calls st @ [getData_request env (session st) [(''cashFunds'', JNum 0)]]"
proof -
  note run = getCashFunds_eq [OF assms]
  have a: "fst (getCashFunds env st) = Inr (JObj [(''cashFunds'', JArr [JObj [(''EUR'', JNum 0)]])])"
    if "data = cash_example"
    using that by (simp add: run getCashFunds_then_example)
  have b: "\<exists>es. out = JObj [(''cashFunds'', JArr es)]
        \<and> (\<forall>e\<in>set es. isObject e \<and> \<not> has_key e ''handling'' \<and> \<not> has_key e ''currencyCode'')"
    if "fst (getCashFunds env st) = Inr out" for out
    using that by (simp add: run getCashFunds_then_Inr)
  have c: "fst (getCashFunds env st) = Inl (bad_result env data)"
    if "\<not> isNil data \<and> (js_prop data ''cashFunds'' = JUndefined
          \<or> \<not> isArray (js_prop (js_prop data ''cashFunds'') ''value''))"
  proof -
    from that have "\<not> isArray (js_prop (js_prop data ''cashFunds'') ''value'')"
      by auto
    with that show ?thesis
      by (simp add: run getCashFunds_then_bad)
  qed
  have d: "calls (snd (getCashFunds env st))
      = calls st @ [getData_request env (session st) [(''cashFunds'', JNum 0)]]"
    by (simp add: run)
  from a b c d show ?thesis by blast
qed

theorem getCashFunds_spec_witness:
  "fst (getCashFunds sample_env (sample_state [answer cash_example]))
     = Inr (JObj [(''cashFunds'', JArr [JObj [(''EUR'', JNum 0)]])])
   \<and> fst (getCashFunds sample_env (sample_state [answer (JObj [(''portfolio'', JNum 0)])]))
     = Inl (Error ''Bad result: {\"portfolio\":0}'')
   \<and> fst (getCashFunds sample_env (sample_state [answer (JObj [(''cashFunds'', JObj [(''value'', JNum 3)])])]))
     = Inl (bad_result sample_env (JObj [(''cashFunds'', JObj [(''value'', JNum 3)])]))"
proof -
  have fetched: "fetch sample_env (world (sample_state [answer body])) req =
      (Inr \<lparr>set_cookie = None, json_body = Inr body\<rparr>, [])" for body req
    by (simp add: sample_env_def sample_state_def scripted_fetch_def answer_def)
  let ?missing = "JObj [(''portfolio'', JNum 0)]"
  let ?scalar = "JObj [(''cashFunds'', JObj [(''value'', JNum 3)])]"
  have "fst (getCashFunds sample_env (sample_state [answer cash_example]))
     = Inr (JObj [(''cashFunds'', JArr [JObj [(''EUR'', JNum 0)]])])"
    using getCashFunds_spec [OF fetched, of cash_example cash_example] by simp
  moreover have "fst (getCashFunds sample_env (sample_state [answer ?missing]))
     = Inl (bad_result sample_env ?missing)"
    using getCashFunds_spec [OF fetched, of ?missing ?missing] by (simp add: isNil_def)
  moreover have "fst (getCashFunds sample_env (sample_state [answer ?scalar]))
     = Inl (bad_result sample_env ?scalar)"
    using getCashFunds_spec [OF fetched, of ?scalar ?scalar] by (simp add: isNil_def)
  moreover have "bad_result sample_env ?missing = Error ''Bad result: {\"portfolio\":0}''"
    by (simp add: bad_result_def sample_env_def int_to_string_def dec_digits.simps)
  ultimately show ?thesis by simp
qed

section \<open>The query of a product search\<close>

lemma omitBy_values: "kv \<in> set (omitBy obj p) \<Longrightarrow> \<not> p (snd kv)"
  by (simp add: omitBy_def)

lemma omitBy_keys: "set (map fst (omitBy obj p)) \<subseteq> set (map fst obj)"
  by (auto simp: omitBy_def)

lemma map_of_omitBy:
  "distinct (map fst obj) \<Longrightarrow>
   map_of (omitBy obj p) k =
     (case map_of obj k of None \<Rightarrow> None | Some v \<Rightarrow> if p v then None else Some v)"
proof (induction obj)
  case Nil
  then show ?case by (simp add: omitBy_def)
next
  case (Cons a obj)
  then have rest: "map_of (omitBy obj p) k =
      (case map_of obj k of None \<Rightarrow> None | Some v \<Rightarrow> if p v then None else Some v)"
    and fresh: "fst a \<notin> fst ` set obj"
    by simp_all
  show ?case
  proof (cases "fst a = k")
    case True
    with fresh have "map_of obj k = None"
      by (simp add: map_of_eq_None_iff)
    with rest True show ?thesis
      by (cases a) (simp add: omitBy_def)
  next
    case False
    with rest show ?thesis
      by (cases a) (simp add: omitBy_def)
  qed
qed

lemma options_distinct: "distinct (map fst (searchProduct_options c arg))"
  by (simp add: searchProduct_options_def)

lemma params_lookup:
  "map_of (searchProduct_params c arg) k =
     (case map_of (searchProduct_options c arg) k of
        None \<Rightarrow> None
      | Some v \<Rightarrow> if isNil v then None else Some v)"
  unfolding searchProduct_params_def by (rule map_of_omitBy [OF options_distinct])

text \<open>An argument that is \<^verbatim>\<open>null\<close> or \<^verbatim>\<open>undefined\<close> cannot be destructured: no request is made.\<close>

lemma searchProduct_nil: "isNil arg \<Longrightarrow> searchProduct env arg st = (Inl TypeError, st)"
  by (simp add: searchProduct_def)

lemma searchProduct_run:
  assumes "\<not> isNil arg"
    and "fetch env (world st) (searchProduct_request env (session st) arg) = (r, w1)"
  shows "searchProduct env arg st =
           ((case r of Inl e \<Rightarrow> Inl e | Inr res \<Rightarrow> json_body res),
            st\<lparr>world := w1, calls := calls st @ [searchProduct_request env (session st) arg]\<rparr>)"
  using assms
  by (simp add: searchProduct_def fetch_json_def pthen_def do_fetch_def settle_def split: sum.splits)

text \<open>
  Claim C7, as the code has it. A call of \<^verbatim>\<open>searchProduct\<close> with an argument that can be
  destructured issues exactly one request, a \<^verbatim>\<open>GET\<close> whose query is the encoding by
  \<^verbatim>\<open>querystring.stringify\<close> of the object \<^verbatim>\<open>omitBy(options, isNil)\<close>, and settles with the
  JSON of the answer. In that object:
  \<^item> \<^verbatim>\<open>productType\<close> is the one supplied; when none is supplied it is the constant
    \<^verbatim>\<open>ProductTypes.all\<close>, whatever \<^verbatim>\<open>./constants\<close> exports under that name, and it is left out
    when that constant is \<^verbatim>\<open>undefined\<close> or \<^verbatim>\<open>null\<close>;
  \<^item> \<^verbatim>\<open>limit\<close> is the one supplied, and 7 when none is supplied; \<^verbatim>\<open>offset\<close> is the one
    supplied, and 0 when none is supplied;
  \<^item> \<^verbatim>\<open>searchText\<close>, \<^verbatim>\<open>sortColumn\<close> and \<^verbatim>\<open>sortType\<close> are the ones supplied;
  \<^item> a \<^verbatim>\<open>sortColumn\<close> or \<^verbatim>\<open>sortType\<close> that is not supplied (or is \<^verbatim>\<open>null\<close>) is no key
    of the object; it has no key besides the six, and none of its values is \<^verbatim>\<open>null\<close> or
    \<^verbatim>\<open>undefined\<close>.
\<close>

theorem searchProduct_defaults_and_omission:
  assumes "\<not> isNil arg"
    and "fetch env (world st) (searchProduct_request env (session st) arg) = (r, w1)"
  shows "searchProduct env arg st =
           ((case r of Inl e \<Rightarrow> Inl e | Inr res \<Rightarrow> json_body res),
            st\<lparr>world := w1, calls := calls st @ [searchProduct_request env (session st) arg]\<rparr>)
       \<and> searchProduct_request env (session st) arg =
           GET (BASE_URL @ ''/product_search/secure/v4/product/lookup?intAccount=''
                @ js_to_string (session_account (session st)) @ ''&sessionId=''
                @ js_to_string (session_id (session st)) @ ''&''
                @ querystring_stringify env (searchProduct_params (constants env) arg))
       \<and> map_of (searchProduct_params (constants env) arg) ''searchText'' =
           (if isNil (js_prop arg ''text'') then None else Some (js_prop arg ''text''))
       \<and> map_of (searchProduct_params (constants env) arg) ''productType'' =
           (if js_prop arg ''productType'' = JUndefined
            then (if isNil (ProductTypes_all (constants env)) then None
                  else Some (ProductTypes_all (constants env)))
            else if js_prop arg ''productType'' = JNull then None
            else Some (js_prop arg ''productType''))
       \<and> map_of (searchProduct_params (constants env) arg) ''sortColumn'' =
           (if isNil (js_prop arg ''sortColumn'') then None else Some (js_prop arg ''sortColumn''))
       \<and> map_of (searchProduct_params (constants env) arg) ''sortType'' =
           (if isNil (js_prop arg ''sortType'') then None else Some (js_prop arg ''sortType''))
       \<and> map_of (searchProduct_params (constants env) arg) ''limit'' =
           (if js_prop arg ''limit'' = JUndefined then Some (JNum 7)
            else if js_prop arg ''limit'' = JNull then None
            else Some (js_prop arg ''limit''))
       \<and> map_of (searchProduct_params (constants env) arg) ''offset'' =
           (if js_prop arg ''offset'' = JUndefined then Some (JNum 0)
            else if js_prop arg ''offset'' = JNull then None
            else Some (js_prop arg ''offset''))
       \<and> (isNil (js_prop arg ''sortColumn'') \<longrightarrow>
            ''sortColumn'' \<notin> set (map fst (searchProduct_params (constants env) arg)))
       \<and> (isNil (js_prop arg ''sortType'') \<longrightarrow>
            ''sortType'' \<notin> set (map fst (searchProduct_params (constants env) arg)))
       \<and> set (map fst (searchProduct_params (constants env) arg))
           \<subseteq> {''searchText'', ''productType'', ''sortColumn'', ''sortType'', ''limit'', ''offset''}
       \<and> (\<forall>kv\<in>set (searchProduct_params (constants env) arg). \<not> isNil (snd kv))"
proof -
  let ?params = "searchProduct_params (constants env) arg"
  note run = searchProduct_run [OF assms]
  have req: "searchProduct_request env (session st) arg =
           GET (BASE_URL @ ''/product_search/secure/v4/product/lookup?intAccount=''
                @ js_to_string (session_account (session st)) @ ''&sessionId=''
                @ js_to_string (session_id (session st)) @ ''&''
                @ querystring_stringify env ?params)"
    by (simp add: searchProduct_request_def)
  have stx: "map_of ?params ''searchText'' =
           (if isNil (js_prop arg ''text'') then None else Some (js_prop arg ''text''))"
    by (simp add: params_lookup searchProduct_options_def)
  have pty: "map_of ?params ''productType'' =
           (if js_prop arg ''productType'' = JUndefined
            then (if isNil (ProductTypes_all (constants env)) then None
                  else Some (ProductTypes_all (constants env)))
            else if js_prop arg ''productType'' = JNull then None
            else Some (js_prop arg ''productType''))"
    by (simp add: params_lookup searchProduct_options_def or_default_def isNil_def)
  have col: "map_of ?params ''sortColumn'' =
           (if isNil (js_prop arg ''sortColumn'') then None else Some (js_prop arg ''sortColumn''))"
    by (simp add: params_lookup searchProduct_options_def)
  have sty: "map_of ?params ''sortType'' =
           (if isNil (js_prop arg ''sortType'') then None else Some (js_prop arg ''sortType''))"
    by (simp add: params_lookup searchProduct_options_def)
  have lim: "map_of ?params ''limit'' =
           (if js_prop arg ''limit'' = JUndefined then Some (JNum 7)
            else if js_prop arg ''limit'' = JNull then None
            else Some (js_prop arg ''limit''))"
    by (simp add: params_lookup searchProduct_options_def or_default_def isNil_def)
  have off: "map_of ?params ''offset'' =
           (if js_prop arg ''offset'' = JUndefined then Some (JNum 0)
            else if js_prop arg ''offset'' = JNull then None
            else Some (js_prop arg ''offset''))"
    by (simp add: params_lookup searchProduct_options_def or_default_def isNil_def)
  have nocol: "''sortColumn'' \<notin> set (map fst ?params)" if "isNil (js_prop arg ''sortColumn'')"
    using that col by (simp add: map_of_eq_None_iff)
  have nosty: "''sortType'' \<notin> set (map fst ?params)" if "isNil (js_prop arg ''sortType'')"
    using that sty by (simp add: map_of_eq_None_iff)
  have keys: "set (map fst ?params)
      \<subseteq> {''searchText'', ''productType'', ''sortColumn'', ''sortType'', ''limit'', ''offset''}"
    using omitBy_keys [of "searchProduct_options (constants env) arg" isNil]
    by (simp add: searchProduct_params_def searchProduct_options_def)
  have vals: "\<forall>kv\<in>set ?params. \<not> isNil (snd kv)"
    unfolding searchProduct_params_def using omitBy_values by blast
  from run req stx pty col sty lim off nocol nosty keys vals show ?thesis
    by (intro conjI impI) assumption+
qed

theorem searchProduct_defaults_and_omission_witness:
  "searchProduct sample_env (JObj [(''text'', JStr ''AAPL''), (''limit'', JNum 1)])
       (sample_state [answer found_X1])
     = (Inr found_X1,
        (sample_state [])\<lparr>calls :=
           [searchProduct_request sample_env \<lparr>session_id = JStr ''S1'', session_account = JNum 42\<rparr>
              (JObj [(''text'', JStr ''AAPL''), (''limit'', JNum 1)])]\<rparr>)
   \<and> map_of (searchProduct_params sample_constants (JObj [(''text'', JStr ''AAPL''), (''limit'', JNum 1)]))
         ''searchText'' = Some (JStr ''AAPL'')
   \<and> map_of (searchProduct_params sample_constants (JObj [(''text'', JStr ''AAPL''), (''limit'', JNum 1)]))
         ''productType'' = None
   \<and> map_of (searchProduct_params sample_constants (JObj [(''text'', JStr ''AAPL''), (''limit'', JNum 1)]))
         ''limit'' = Some (JNum 1)
   \<and> map_of (searchProduct_params sample_constants (JObj [(''text'', JStr ''AAPL''), (''limit'', JNum 1)]))
         ''offset'' = Some (JNum 0)
   \<and> ''sortColumn'' \<notin> set (map fst
         (searchProduct_params sample_constants (JObj [(''text'', JStr ''AAPL''), (''limit'', JNum 1)])))
   \<and> ''sortType'' \<notin> set (map fst
         (searchProduct_params sample_constants (JObj [(''text'', JStr ''AAPL''), (''limit'', JNum 1)])))
   \<and> list_all (\<lambda>kv. \<not> isNil (snd kv))
         (searchProduct_params sample_constants (JObj [(''text'', JStr ''AAPL''), (''limit'', JNum 1)]))
   \<and> map_of (searchProduct_params (sample_constants\<lparr>ProductTypes_all := JNum 0\<rparr>)
         (JObj [(''text'', JStr ''AAPL'')])) ''productType'' = Some (JNum 0)
   \<and> map_of (searchProduct_params (sample_constants\<lparr>ProductTypes_all := JNum 0\<rparr>)
         (JObj [(''text'', JStr ''AAPL'')])) ''limit'' = Some (JNum 7)"
proof -
  let ?arg = "JObj [(''text'', JStr ''AAPL''), (''limit'', JNum 1)]"
  let ?st = "sample_state [answer found_X1]"
  let ?req = "searchProduct_request sample_env \<lparr>session_id = JStr ''S1'', session_account = JNum 42\<rparr> ?arg"
  have arg: "\<not> isNil ?arg"
    by (simp add: isNil_def)
  have s: "session ?st = \<lparr>session_id = JStr ''S1'', session_account = JNum 42\<rparr>"
    by (simp add: sample_state_def)
  have f: "fetch sample_env (world ?st) (searchProduct_request sample_env (session ?st) ?arg)
      = (Inr \<lparr>set_cookie = None, json_body = Inr found_X1\<rparr>, [])"
    by (simp add: sample_env_def sample_state_def scripted_fetch_def answer_def)
  have c: "constants sample_env = sample_constants" "ProductTypes_all sample_constants = JUndefined"
    by (simp_all add: sample_env_def sample_constants_def)
  have after: "?st\<lparr>world := [], calls := calls ?st @ [?req]\<rparr> = (sample_state [])\<lparr>calls := [?req]\<rparr>"
    by (simp add: sample_state_def)
  note t = searchProduct_defaults_and_omission [OF arg f]
  from t have run: "searchProduct sample_env ?arg ?st = (Inr found_X1, (sample_state [])\<lparr>calls := [?req]\<rparr>)"
    by (simp add: s after)
  from t have look: "map_of (searchProduct_params sample_constants ?arg) ''searchText'' = Some (JStr ''AAPL'')"
    "map_of (searchProduct_params sample_constants ?arg) ''productType'' = None"
    "map_of (searchProduct_params sample_constants ?arg) ''limit'' = Some (JNum 1)"
    "map_of (searchProduct_params sample_constants ?arg) ''offset'' = Some (JNum 0)"
    "''sortColumn'' \<notin> set (map fst (searchProduct_params sample_constants ?arg))"
    "''sortType'' \<notin> set (map fst (searchProduct_params sample_constants ?arg))"
    "list_all (\<lambda>kv. \<not> isNil (snd kv)) (searchProduct_params sample_constants ?arg)"
    by (simp_all add: c isNil_def list_all_iff)
  let ?env0 = "sample_env\<lparr>constants := sample_constants\<lparr>ProductTypes_all := JNum 0\<rparr>\<rparr>"
  let ?arg0 = "JObj [(''text'', JStr ''AAPL'')]"
  have arg0: "\<not> isNil ?arg0"
    by (simp add: isNil_def)
  have f0: "fetch ?env0 (world ?st) (searchProduct_request ?env0 (session ?st) ?arg0)
      = (Inr \<lparr>set_cookie = None, json_body = Inr found_X1\<rparr>, [])"
    by (simp add: sample_env_def sample_state_def scripted_fetch_def answer_def)
  from searchProduct_defaults_and_omission [OF arg0 f0]
  have look0: "map_of (searchProduct_params (sample_constants\<lparr>ProductTypes_all := JNum 0\<rparr>) ?arg0)
        ''productType'' = Some (JNum 0)"
    "map_of (searchProduct_params (sample_constants\<lparr>ProductTypes_all := JNum 0\<rparr>) ?arg0)
        ''limit'' = Some (JNum 7)"
    by (simp_all add: isNil_def)
  from run look look0 show ?thesis
    by (intro conjI) assumption+
qed

text \<open>The query of \<^verbatim>\<open>searchProduct({text: "AAPL", limit: 1})\<close> under the sample encoder.\<close>

lemma sample_query:
  "plain_query (searchProduct_params sample_constants (JObj [(''text'', JStr ''AAPL''), (''limit'', JNum 1)]))
     = ''searchText=AAPL&limit=1&offset=0''"
  by (simp add: searchProduct_params_def searchProduct_options_def omitBy_def isNil_def
      or_default_def sample_constants_def plain_query_def int_to_string_def dec_digits.simps)

text \<open>
  Claim C7, as stated, has the default \<^verbatim>\<open>productType = "all"\<close>. With a \<^verbatim>\<open>./constants\<close> whose
  \<^verbatim>\<open>ProductTypes.all\<close> is \<^verbatim>\<open>undefined\<close>, the one request of
  \<^verbatim>\<open>searchProduct({text: "AAPL", limit: 1})\<close> carries no \<^verbatim>\<open>productType\<close> at all: the default
  is the constant, and \<^verbatim>\<open>omitBy\<close> drops it with the other absent fields.
\<close>

theorem searchProduct_productType_counterexample:
  "ProductTypes_all (constants sample_env) = JUndefined
   \<and> map req_url (calls (snd (searchProduct sample_env
         (JObj [(''text'', JStr ''AAPL''), (''limit'', JNum 1)]) (sample_state [answer found_X1]))))
     = [''https://trader.degiro.nl/product_search/secure/v4/product/lookup?intAccount=42&sessionId=S1&searchText=AAPL&limit=1&offset=0'']
   \<and> map_of (searchProduct_params (constants sample_env)
         (JObj [(''text'', JStr ''AAPL''), (''limit'', JNum 1)])) ''productType'' \<noteq> Some (JStr ''all'')"
proof -
  let ?arg = "JObj [(''text'', JStr ''AAPL''), (''limit'', JNum 1)]"
  let ?st = "sample_state [answer found_X1]"
  have c: "constants sample_env = sample_constants" "ProductTypes_all sample_constants = JUndefined"
    by (simp_all add: sample_env_def sample_constants_def)
  have url: "req_url (searchProduct_request sample_env (session ?st) ?arg)
      = ''https://trader.degiro.nl/product_search/secure/v4/product/lookup?intAccount=42&sessionId=S1&searchText=AAPL&limit=1&offset=0''"
    by (simp add: searchProduct_request_def GET_def BASE_URL_def c sample_query sample_state_def
        int_to_string_def dec_digits.simps)
      (simp add: sample_env_def sample_query)
  have "\<not> isNil ?arg"
    by (simp add: isNil_def)
  then have "calls (snd (searchProduct sample_env ?arg ?st))
      = [searchProduct_request sample_env (session ?st) ?arg]"
    by (simp add: searchProduct_def fetch_json_def pthen_def do_fetch_def settle_def sample_state_def
        split: prod.splits sum.splits)
  moreover have "map_of (searchProduct_params sample_constants ?arg) ''productType'' = None"
    by (simp add: params_lookup searchProduct_options_def or_default_def c isNil_def)
  ultimately show ?thesis
    using url c by simp
qed

end
